theory Spec2Isabelle
  imports Main "HOL-Library.Sublist"
begin

section \<open>Python strings\<close>

text \<open>
  A Python \<open>str\<close> is modelled as a \<open>string\<close> holding its UTF-8 encoding. Every
  literal of \<open>config.py\<close> is ASCII, so the substring test \<open>needle in line\<close> on code
  points is the substring test on the encoded bytes: \<^const>\<open>sublist\<close>.
\<close>

text \<open>\<open>str(n)\<close> for an integer, as an f-string renders it: decimal, with a minus sign.\<close>

definition digit_char :: "nat \<Rightarrow> char" where
  "digit_char d = ''0123456789'' ! d"

function digits :: "nat \<Rightarrow> string" where
  "digits n = (if n < 10 then [digit_char n] else digits (n div 10) @ [digit_char (n mod 10)])"
  by pat_completeness auto
termination
  by (relation "measure (\<lambda>n. n)") auto

declare digits.simps [simp del]

definition str_int :: "int \<Rightarrow> string" where
  "str_int i = (if i < 0 then CHR ''-'' # digits (nat (- i)) else digits (nat i))"

text \<open>An f-string field holding an \<open>Optional[str]\<close>: \<open>None\<close> is rendered as the text None.\<close>

fun fmt_opt :: "string option \<Rightarrow> string" where
  "fmt_opt None = ''None''"
| "fmt_opt (Some s) = s"

text \<open>\<open>s.split(sep)\<close> for a one-character separator: never empty, keeps empty fields.\<close>

fun split_from :: "char \<Rightarrow> string \<Rightarrow> string \<Rightarrow> string list" where
  "split_from sep cur [] = [cur]"
| "split_from sep cur (c # cs) =
     (if c = sep then cur # split_from sep [] cs else split_from sep (cur @ [c]) cs)"

definition split :: "string \<Rightarrow> char \<Rightarrow> string list" where
  "split s sep = split_from sep [] s"

text \<open>\<open>sep.join(xs)\<close>.\<close>

fun join :: "string \<Rightarrow> string list \<Rightarrow> string" where
  "join sep [] = []"
| "join sep [x] = x"
| "join sep (x # y # ys) = x @ sep @ join sep (y # ys)"

text \<open>
  \<open>s.splitlines()\<close>: the line boundaries of Python's \<open>str.splitlines\<close> are
  \<open>\n\<close>, \<open>\r\n\<close>, \<open>\r\<close>, \<open>\v\<close>, \<open>\f\<close>, \<open>\x1c\<close>, \<open>\x1d\<close>, \<open>\x1e\<close>, \<open>\x85\<close>,
  U+2028 and U+2029; the last three are the byte sequences C2 85, E2 80 A8 and
  E2 80 A9 in UTF-8. \<open>boundary s\<close> is the length of the line boundary that \<open>s\<close> starts
  with, 0 when it starts with none. The boundaries are dropped, and a final boundary
  opens no empty last line.
\<close>

fun boundary :: "string \<Rightarrow> nat" where
  "boundary [] = 0"
| "boundary (c # cs) =
     (if c = CHR 0x0D then (if take 1 cs = [CHR 0x0A] then 2 else 1)
      else if c \<in> set [CHR 0x0A, CHR 0x0B, CHR 0x0C, CHR 0x1C, CHR 0x1D, CHR 0x1E] then 1
      else if c = CHR 0xC2 \<and> take 1 cs = [CHR 0x85] then 2
      else if c = CHR 0xE2 \<and> take 2 cs = [CHR 0x80, CHR 0xA8] then 3
      else if c = CHR 0xE2 \<and> take 2 cs = [CHR 0x80, CHR 0xA9] then 3
      else 0)"

function splitlines_from :: "string \<Rightarrow> string \<Rightarrow> string list" where
  "splitlines_from cur [] = (if cur = [] then [] else [cur])"
| "splitlines_from cur (c # cs) =
     (if boundary (c # cs) = 0 then splitlines_from (cur @ [c]) cs
      else cur # splitlines_from [] (drop (boundary (c # cs)) (c # cs)))"
  by pat_completeness auto
termination
  by (relation "measure (\<lambda>(cur, s). length s)") auto

definition splitlines :: "string \<Rightarrow> string list" where
  "splitlines s = splitlines_from [] s"

section \<open>The charm's state, as the configuration manager reads it\<close>

text \<open>
  \<open>PathError\<close> is the one exception \<open>config.py\<close> names; a function that raises returns
  \<open>Inl\<close> of it, a function that returns \<open>v\<close> returns \<open>Inr v\<close>.
\<close>

datatype error = PathError

text \<open>The workload container's files: path to contents.\<close>

type_synonym container = "string \<rightharpoonup> string"

text \<open>
  Modelled from the spec: \<open>utils.pull\<close> is not among the source files. The read is
  \<open>pull(path) -> contents | NotFound\<close>; a path that is missing or cannot be read has no
  contents in the container and the read raises \<open>PathError\<close>.
\<close>

definition pull :: "container \<Rightarrow> string \<Rightarrow> error + string" where
  "pull container path = (case container path of None \<Rightarrow> Inl PathError | Some s \<Rightarrow> Inr s)"

text \<open>
  What \<open>ZooKeeperConfig\<close> reads of \<open>self.charm\<close>: the four config options, the TLS
  manager's fields, the quorum mode of the cluster manager, the application databag of
  the peer relation, the ids of the client relations, and the container.
\<close>

record charm =
  data_dir :: string
  init_limit :: int
  sync_limit :: int
  tick_time :: int
  tls_enabled :: bool
  tls_upgrading :: bool
  tls_keystore_password :: "string option"
  cluster_quorum :: "string option"
  app_data :: "string \<rightharpoonup> string"
  client_relations :: "int list"
  container :: container

section \<open>ZooKeeperConfig\<close>

definition DEFAULT_PROPERTIES :: string where
  "DEFAULT_PROPERTIES =
     ''\<newline>syncEnabled=true'' @
     ''\<newline>maxClientCnxns=60'' @
     ''\<newline>minSessionTimeout=4000'' @
     ''\<newline>maxSessionTimeout=40000'' @
     ''\<newline>autopurge.snapRetainCount=3'' @
     ''\<newline>autopurge.purgeInterval=0'' @
     ''\<newline>reconfigEnabled=true'' @
     ''\<newline>standaloneEnabled=false'' @
     ''\<newline>4lw.commands.whitelist=mntr,srvr'' @
     ''\<newline>DigestAuthenticationProvider.digestAlg=SHA3-256'' @
     ''\<newline>quorum.auth.enableSasl=true'' @
     ''\<newline>quorum.auth.learnerRequireSasl=true'' @
     ''\<newline>quorum.auth.serverRequireSasl=true'' @
     ''\<newline>authProvider.sasl=org.apache.zookeeper.server.auth.SASLAuthenticationProvider'' @
     ''\<newline>audit.enable=true''"

definition TLS_PROPERTIES :: string where
  "TLS_PROPERTIES =
     ''\<newline>secureClientPort=2182'' @
     ''\<newline>ssl.clientAuth=none'' @
     ''\<newline>ssl.quorum.clientAuth=none'' @
     ''\<newline>ssl.client.enable=true'' @
     ''\<newline>clientCnxnSocket=org.apache.zookeeper.ClientCnxnSocketNetty'' @
     ''\<newline>serverCnxnFactory=org.apache.zookeeper.server.NettyServerCnxnFactory'' @
     ''\<newline>ssl.quorum.hostnameVerification=false'' @
     ''\<newline>ssl.hostnameVerification=false'' @
     ''\<newline>ssl.trustStore.type=JKS'' @
     ''\<newline>ssl.keyStore.type=PKCS12'' @
     ''\<newline>''"

text \<open>The paths \<open>__init__\<close> derives from the \<open>data-dir\<close> option.\<close>

definition default_config_path :: "charm \<Rightarrow> string" where
  "default_config_path c = data_dir c @ ''/config''"

definition properties_filepath :: "charm \<Rightarrow> string" where
  "properties_filepath c = default_config_path c @ ''/zookeeper.properties''"

definition dynamic_filepath :: "charm \<Rightarrow> string" where
  "dynamic_filepath c = default_config_path c @ ''/zookeeper-dynamic.properties''"

definition jaas_filepath :: "charm \<Rightarrow> string" where
  "jaas_filepath c = default_config_path c @ ''/zookeeper-jaas.cfg''"

definition keystore_filepath :: "charm \<Rightarrow> string" where
  "keystore_filepath c = default_config_path c @ ''/keystore.p12''"

definition truststore_filepath :: "charm \<Rightarrow> string" where
  "truststore_filepath c = default_config_path c @ ''/truststore.jks''"

text \<open>
  \<open>jaas_users\<close>: one line per client relation whose password the application databag
  holds; \<open>not (username and password)\<close> skips a relation whose password is \<open>None\<close> or
  empty.
\<close>

fun jaas_users_loop :: "(string \<rightharpoonup> string) \<Rightarrow> int list \<Rightarrow> string list \<Rightarrow> string list" where
  \<open>jaas_users_loop d [] jaas_users = jaas_users\<close>
| \<open>jaas_users_loop d (relation_id # relations) jaas_users =
     (let username = ''relation-'' @ str_int relation_id;
          password = d username
      in if username = [] \<or> password = None \<or> password = Some []
         then jaas_users_loop d relations jaas_users
         else jaas_users_loop d relations
                (jaas_users @ [''user_'' @ username @ ''="'' @ fmt_opt password @ ''"'']))\<close>

definition jaas_users :: "charm \<Rightarrow> string list" where
  "jaas_users c =
     (if client_relations c = [] then []
      else jaas_users_loop (app_data c) (client_relations c) [])"

definition jaas_config :: "charm \<Rightarrow> error + string" where
  \<open>jaas_config c =
     (let sync_password = app_data c ''sync-password'';
          super_password = app_data c ''super-password'';
          joined = join ''\<newline>'' (jaas_users c);
          users = (if joined = [] then [] else joined)
      in Inr (
        ''\<newline>'' @
        ''            QuorumServer {\<newline>'' @
        ''                org.apache.zookeeper.server.auth.DigestLoginModule required\<newline>'' @
        ''                user_sync="'' @ fmt_opt sync_password @ ''";\<newline>'' @
        ''            };\<newline>'' @
        ''            QuorumLearner {\<newline>'' @
        ''                org.apache.zookeeper.server.auth.DigestLoginModule required\<newline>'' @
        ''                username="sync"\<newline>'' @
        ''                password="'' @ fmt_opt sync_password @ ''";\<newline>'' @
        ''            };\<newline>'' @
        ''            Server {\<newline>'' @
        ''                org.apache.zookeeper.server.auth.DigestLoginModule required\<newline>'' @
        ''                '' @ users @ ''\<newline>'' @
        ''                user_super="'' @ fmt_opt super_password @ ''";\<newline>'' @
        ''            };\<newline>'' @
        ''        ''))\<close>

text \<open>
  \<open>current_dynamic_config_file\<close>: the first line of the deployed static file that
  contains the text dynamicConfigFile, or the default pointer when the read raises
  \<open>PathError\<close> or no line contains it.
\<close>

definition default_dynamic_config_file :: "charm \<Rightarrow> string" where
  "default_dynamic_config_file c =
     ''dynamicConfigFile='' @ default_config_path c @ ''/zookeeper-dynamic.properties''"

definition current_dynamic_config_file :: "charm \<Rightarrow> error + string" where
  "current_dynamic_config_file c =
     (case pull (container c) (properties_filepath c) of
        Inl PathError \<Rightarrow> Inr (default_dynamic_config_file c)
      | Inr contents \<Rightarrow>
          (case find (\<lambda>current_property. sublist ''dynamicConfigFile'' current_property)
                  (splitlines contents) of
             Some current_property \<Rightarrow> Inr current_property
           | None \<Rightarrow> Inr (default_dynamic_config_file c)))"

text \<open>\<open>zookeeper_properties\<close>: the lines of \<open>zookeeper.properties\<close>, in order.\<close>

definition zookeeper_properties :: "charm \<Rightarrow> error + string list" where
  "zookeeper_properties c =
     (case current_dynamic_config_file c of
        Inl e \<Rightarrow> Inl e
      | Inr dynamic_config_file \<Rightarrow>
          (let properties =
                 [''initLimit='' @ str_int (init_limit c),
                  ''syncLimit='' @ str_int (sync_limit c),
                  ''tickTime='' @ str_int (tick_time c)]
                 @ split DEFAULT_PROPERTIES CHR 0x0A
                 @ [''dataDir='' @ default_config_path c @ ''/data'',
                    ''dataLogDir='' @ default_config_path c @ ''/log'',
                    dynamic_config_file];
               properties =
                 (if tls_enabled c
                  then properties
                    @ split TLS_PROPERTIES CHR 0x0A
                    @ [''ssl.quorum.keyStore.location='' @ keystore_filepath c,
                       ''ssl.quorum.trustStore.location='' @ truststore_filepath c,
                       ''ssl.keyStore.location='' @ keystore_filepath c,
                       ''ssl.trustStore.location='' @ truststore_filepath c,
                       ''ssl.keyStore.location='' @ keystore_filepath c,
                       ''ssl.quorum.keyStore.password='' @ fmt_opt (tls_keystore_password c),
                       ''ssl.quorum.trustStore.password='' @ fmt_opt (tls_keystore_password c),
                       ''ssl.keyStore.password='' @ fmt_opt (tls_keystore_password c),
                       ''ssl.trustStore.password='' @ fmt_opt (tls_keystore_password c)]
                  else properties);
               properties =
                 (if tls_upgrading c then properties @ [''portUnification=true'']
                  else properties);
               properties =
                 (if cluster_quorum c = Some ''ssl'' then properties @ [''sslQuorum=true'']
                  else properties)
           in Inr properties))"

text \<open>\<open>build_static_properties\<close>: the list comprehension, a filter on substrings.\<close>

definition build_static_properties :: "string list \<Rightarrow> string list" where
  "build_static_properties properties =
     filter (\<lambda>prop. \<not> sublist ''clientPort'' prop \<and> \<not> sublist ''secureClientPort'' prop)
       properties"

section \<open>Vocabulary of the specification\<close>

text \<open>
  The specification speaks of the key of a property line: in the \<open>key=value\<close> format of
  the file, the text before the first equals sign of a line that has one.
\<close>

definition is_property :: "string \<Rightarrow> bool" where
  "is_property line = (CHR ''='' \<in> set line)"

definition property_key :: "string \<Rightarrow> string" where
  "property_key line = takeWhile (\<lambda>ch. ch \<noteq> CHR ''='') line"

definition keys_of :: "string list \<Rightarrow> string list" where
  "keys_of properties = map property_key (filter is_property properties)"

text \<open>
  The three segments of the assembled list, with the two constants already split into
  lines: the base lines around the pointer line \<open>d\<close>, the TLS lines, and the
  transition flags.
\<close>

definition base_lines :: "charm \<Rightarrow> string \<Rightarrow> string list" where
  "base_lines c d =
     [''initLimit='' @ str_int (init_limit c),
      ''syncLimit='' @ str_int (sync_limit c),
      ''tickTime='' @ str_int (tick_time c),
      '''',
      ''syncEnabled=true'',
      ''maxClientCnxns=60'',
      ''minSessionTimeout=4000'',
      ''maxSessionTimeout=40000'',
      ''autopurge.snapRetainCount=3'',
      ''autopurge.purgeInterval=0'',
      ''reconfigEnabled=true'',
      ''standaloneEnabled=false'',
      ''4lw.commands.whitelist=mntr,srvr'',
      ''DigestAuthenticationProvider.digestAlg=SHA3-256'',
      ''quorum.auth.enableSasl=true'',
      ''quorum.auth.learnerRequireSasl=true'',
      ''quorum.auth.serverRequireSasl=true'',
      ''authProvider.sasl=org.apache.zookeeper.server.auth.SASLAuthenticationProvider'',
      ''audit.enable=true'',
      ''dataDir='' @ default_config_path c @ ''/data'',
      ''dataLogDir='' @ default_config_path c @ ''/log'',
      d]"

definition tls_lines :: "charm \<Rightarrow> string list" where
  "tls_lines c =
     (if tls_enabled c then
        ['''',
         ''secureClientPort=2182'',
         ''ssl.clientAuth=none'',
         ''ssl.quorum.clientAuth=none'',
         ''ssl.client.enable=true'',
         ''clientCnxnSocket=org.apache.zookeeper.ClientCnxnSocketNetty'',
         ''serverCnxnFactory=org.apache.zookeeper.server.NettyServerCnxnFactory'',
         ''ssl.quorum.hostnameVerification=false'',
         ''ssl.hostnameVerification=false'',
         ''ssl.trustStore.type=JKS'',
         ''ssl.keyStore.type=PKCS12'',
         '''',
         ''ssl.quorum.keyStore.location='' @ keystore_filepath c,
         ''ssl.quorum.trustStore.location='' @ truststore_filepath c,
         ''ssl.keyStore.location='' @ keystore_filepath c,
         ''ssl.trustStore.location='' @ truststore_filepath c,
         ''ssl.keyStore.location='' @ keystore_filepath c,
         ''ssl.quorum.keyStore.password='' @ fmt_opt (tls_keystore_password c),
         ''ssl.quorum.trustStore.password='' @ fmt_opt (tls_keystore_password c),
         ''ssl.keyStore.password='' @ fmt_opt (tls_keystore_password c),
         ''ssl.trustStore.password='' @ fmt_opt (tls_keystore_password c)]
      else [])"

definition transition_flags :: "charm \<Rightarrow> string list" where
  "transition_flags c =
     (if tls_upgrading c then [''portUnification=true''] else []) @
     (if cluster_quorum c = Some ''ssl'' then [''sslQuorum=true''] else [])"

text \<open>
  The client relations, as the specification speaks of them: a relation is resolved when
  the databag holds a non-empty password under its user name, and \<open>user_line\<close> is the
  line \<open>jaas_users\<close> writes for it.
\<close>

definition resolved :: "(string \<rightharpoonup> string) \<Rightarrow> int \<Rightarrow> bool" where
  "resolved d relation_id =
     (case d (''relation-'' @ str_int relation_id) of None \<Rightarrow> False | Some p \<Rightarrow> p \<noteq> [])"

definition user_line :: "(string \<rightharpoonup> string) \<Rightarrow> int \<Rightarrow> string" where
  \<open>user_line d relation_id =
     ''user_relation-'' @ str_int relation_id @ ''="'' @
       fmt_opt (d (''relation-'' @ str_int relation_id)) @ ''"''\<close>

section \<open>Example states\<close>

text \<open>
  Concrete charm states and property lists, on which the theorems below are evaluated.
\<close>

definition nonpositive_tuning :: charm where
  "nonpositive_tuning =
     \<lparr>data_dir = ''/var/lib/zookeeper'', init_limit = 0, sync_limit = - 5, tick_time = 2000,
      tls_enabled = False, tls_upgrading = False, tls_keystore_password = None,
      cluster_quorum = Some ''non-ssl'', app_data = Map.empty, client_relations = [],
      container = Map.empty\<rparr>"

definition add_port_unification :: charm where
  "add_port_unification =
     \<lparr>data_dir = ''/srv'', init_limit = 5, sync_limit = 2, tick_time = 2000,
      tls_enabled = True, tls_upgrading = True, tls_keystore_password = Some ''secret'',
      cluster_quorum = Some ''non-ssl'', app_data = Map.empty, client_relations = [],
      container = Map.empty\<rparr>"

definition tls_on :: charm where
  "tls_on =
     \<lparr>data_dir = ''/srv'', init_limit = 5, sync_limit = 2, tick_time = 2000,
      tls_enabled = True, tls_upgrading = False, tls_keystore_password = Some ''secret'',
      cluster_quorum = Some ''ssl'', app_data = Map.empty, client_relations = [],
      container = Map.empty\<rparr>"

definition revised_pointer :: charm where
  "revised_pointer =
     \<lparr>data_dir = ''/srv'', init_limit = 5, sync_limit = 2, tick_time = 2000,
      tls_enabled = False, tls_upgrading = False, tls_keystore_password = None,
      cluster_quorum = Some ''non-ssl'', app_data = Map.empty, client_relations = [],
      container =
        [''/srv/config/zookeeper.properties'' \<mapsto>
           ''initLimit=5\<newline>dynamicConfigFile=/cfg/zookeeper-dynamic-v7.properties\<newline>dynamicConfigFile=/cfg/other'']\<rparr>"

definition keyless_file :: charm where
  "keyless_file =
     \<lparr>data_dir = ''/srv'', init_limit = 5, sync_limit = 2, tick_time = 2000,
      tls_enabled = False, tls_upgrading = False, tls_keystore_password = None,
      cluster_quorum = Some ''non-ssl'', app_data = Map.empty, client_relations = [],
      container =
        [''/srv/config/zookeeper.properties'' \<mapsto> ''initLimit=5\<newline>syncLimit=2'']\<rparr>"


definition pending_client :: charm where
  \<open>pending_client =
     \<lparr>data_dir = ''/srv'', init_limit = 5, sync_limit = 2, tick_time = 2000,
      tls_enabled = False, tls_upgrading = False, tls_keystore_password = None,
      cluster_quorum = Some ''non-ssl'',
      app_data = [''sync-password'' \<mapsto> ''s1'', ''super-password'' \<mapsto> ''s2'',
                  ''relation-7'' \<mapsto> ''pw7''],
      client_relations = [5, 7],
      container = Map.empty\<rparr>\<close>

definition only_pending_client :: charm where
  \<open>only_pending_client =
     \<lparr>data_dir = ''/srv'', init_limit = 5, sync_limit = 2, tick_time = 2000,
      tls_enabled = False, tls_upgrading = False, tls_keystore_password = None,
      cluster_quorum = Some ''non-ssl'',
      app_data = [''sync-password'' \<mapsto> ''s1'', ''super-password'' \<mapsto> ''s2''],
      client_relations = [5],
      container = Map.empty\<rparr>\<close>

definition sample_properties :: "string list" where
  "sample_properties =
     [''clientPort=2181'', ''tickTime=2000'', ''secureClientPort=2182'',
      ''clientPortAddress=0.0.0.0'', ''dataDir=/srv/config/data'']"

section \<open>The assembled list, segment by segment\<close>

lemma split_DEFAULT_PROPERTIES:
  "split DEFAULT_PROPERTIES CHR 0x0A =
     ['''',
      ''syncEnabled=true'',
      ''maxClientCnxns=60'',
      ''minSessionTimeout=4000'',
      ''maxSessionTimeout=40000'',
      ''autopurge.snapRetainCount=3'',
      ''autopurge.purgeInterval=0'',
      ''reconfigEnabled=true'',
      ''standaloneEnabled=false'',
      ''4lw.commands.whitelist=mntr,srvr'',
      ''DigestAuthenticationProvider.digestAlg=SHA3-256'',
      ''quorum.auth.enableSasl=true'',
      ''quorum.auth.learnerRequireSasl=true'',
      ''quorum.auth.serverRequireSasl=true'',
      ''authProvider.sasl=org.apache.zookeeper.server.auth.SASLAuthenticationProvider'',
      ''audit.enable=true'']"
  by code_simp

lemma split_TLS_PROPERTIES:
  "split TLS_PROPERTIES CHR 0x0A =
     ['''',
      ''secureClientPort=2182'',
      ''ssl.clientAuth=none'',
      ''ssl.quorum.clientAuth=none'',
      ''ssl.client.enable=true'',
      ''clientCnxnSocket=org.apache.zookeeper.ClientCnxnSocketNetty'',
      ''serverCnxnFactory=org.apache.zookeeper.server.NettyServerCnxnFactory'',
      ''ssl.quorum.hostnameVerification=false'',
      ''ssl.hostnameVerification=false'',
      ''ssl.trustStore.type=JKS'',
      ''ssl.keyStore.type=PKCS12'',
      '''']"
  by code_simp

lemma tracker_total: "\<exists>d. current_dynamic_config_file c = Inr d"
  by (simp add: current_dynamic_config_file_def pull_def split: option.split)

lemma default_mentions_key: "sublist ''dynamicConfigFile'' (default_dynamic_config_file c)"
  unfolding default_dynamic_config_file_def
  by (rule prefix_imp_sublist) simp

lemma tracker_line_mentions_key:
  assumes "current_dynamic_config_file c = Inr d"
  shows "sublist ''dynamicConfigFile'' d"
proof (cases "container c (properties_filepath c)")
  case None
  with assms have "d = default_dynamic_config_file c"
    by (simp add: current_dynamic_config_file_def pull_def)
  then show ?thesis by (simp add: default_mentions_key)
next
  case (Some contents)
  show ?thesis
  proof (cases "find (sublist ''dynamicConfigFile'') (splitlines contents)")
    case None
    with Some assms have "d = default_dynamic_config_file c"
      by (simp add: current_dynamic_config_file_def pull_def)
    then show ?thesis by (simp add: default_mentions_key)
  next
    case (Some l)
    with \<open>container c (properties_filepath c) = Some contents\<close> assms have "d = l"
      by (simp add: current_dynamic_config_file_def pull_def)
    moreover from Some have "sublist ''dynamicConfigFile'' l"
      by (auto simp: find_Some_iff)
    ultimately show ?thesis by simp
  qed
qed

lemma zookeeper_properties_lines:
  assumes "current_dynamic_config_file c = Inr d"
  shows "zookeeper_properties c = Inr (base_lines c d @ tls_lines c @ transition_flags c)"
  using assms
  by (simp add: zookeeper_properties_def Let_def split_DEFAULT_PROPERTIES split_TLS_PROPERTIES
      base_lines_def tls_lines_def transition_flags_def)

lemma str_int_examples:
  "str_int 0 = ''0''" "str_int (- 5) = ''-5''" "str_int 2000 = ''2000''"
  "str_int 5 = ''5''" "str_int 2 = ''2''" "str_int 7 = ''7''"
  by (simp_all add: str_int_def digits.simps digit_char_def)

lemma flags_do_not_mention_key:
  "\<not> sublist ''dynamicConfigFile'' ''portUnification=true''"
  "\<not> sublist ''dynamicConfigFile'' ''sslQuorum=true''"
  by (simp_all add: sublist_code)

lemma tracker_line_not_flag:
  assumes "current_dynamic_config_file c = Inr d"
  shows "d \<noteq> ''portUnification=true''" and "d \<noteq> ''sslQuorum=true''"
  using tracker_line_mentions_key [OF assms] flags_do_not_mention_key by auto

lemma base_lines_no_flag:
  assumes "d \<noteq> ''portUnification=true''" and "d \<noteq> ''sslQuorum=true''"
  shows "''portUnification=true'' \<notin> set (base_lines c d)"
    and "''sslQuorum=true'' \<notin> set (base_lines c d)"
  using assms by (auto simp: base_lines_def)

lemma tls_lines_no_flag:
  shows "''portUnification=true'' \<notin> set (tls_lines c)"
    and "''sslQuorum=true'' \<notin> set (tls_lines c)"
  by (auto simp: tls_lines_def)

lemma transition_flags_mem:
  "(''portUnification=true'' \<in> set (transition_flags c)) = tls_upgrading c"
  "(''sslQuorum=true'' \<in> set (transition_flags c)) = (cluster_quorum c = Some ''ssl'')"
  by (auto simp: transition_flags_def)

lemma tracker_tls_on:
  "current_dynamic_config_file tls_on =
     Inr ''dynamicConfigFile=/srv/config/zookeeper-dynamic.properties''"
  by (simp add: current_dynamic_config_file_def pull_def tls_on_def
      default_dynamic_config_file_def default_config_path_def)

section \<open>Migration flags\<close>

text \<open>
  C1. For every cluster security state the assembled list holds exactly the migration
  flags of the current stage: the line portUnification=true is in the list exactly when
  the cluster is upgrading, and the line sslQuorum=true exactly when the quorum mode is
  ssl. So ADD_PORT_UNIFICATION (upgrading, not ssl) has the first line only,
  ADD_SSL_QUORUM (upgrading, ssl) both, REMOVE_PORT_UNIFICATION (not upgrading, ssl) the
  second only, and the stable plaintext state neither.
\<close>

theorem migration_flags_of_stage:
  "\<exists>ps. zookeeper_properties c = Inr ps \<and>
     (''portUnification=true'' \<in> set ps) = tls_upgrading c \<and>
     (''sslQuorum=true'' \<in> set ps) = (cluster_quorum c = Some ''ssl'')"
proof -
  obtain d where d: "current_dynamic_config_file c = Inr d"
    using tracker_total by blast
  let ?ps = "base_lines c d @ tls_lines c @ transition_flags c"
  have "zookeeper_properties c = Inr ?ps"
    by (rule zookeeper_properties_lines [OF d])
  moreover have "(''portUnification=true'' \<in> set ?ps) = tls_upgrading c"
    using base_lines_no_flag(1) [OF tracker_line_not_flag [OF d]] tls_lines_no_flag(1)
    by (simp add: transition_flags_mem)
  moreover have "(''sslQuorum=true'' \<in> set ?ps) = (cluster_quorum c = Some ''ssl'')"
    using base_lines_no_flag(2) [OF tracker_line_not_flag [OF d]] tls_lines_no_flag(2)
    by (simp add: transition_flags_mem)
  ultimately show ?thesis by blast
qed

text \<open>
  The theorem at the states \<open>add_port_unification\<close> (upgrading, quorum not ssl) and
  \<open>tls_on\<close> (not upgrading, quorum ssl).
\<close>

theorem migration_flags_of_stage_witness:
  "(\<exists>ps. zookeeper_properties add_port_unification = Inr ps \<and>
      ''portUnification=true'' \<in> set ps \<and> ''sslQuorum=true'' \<notin> set ps) \<and>
   (\<exists>ps. zookeeper_properties tls_on = Inr ps \<and>
      ''portUnification=true'' \<notin> set ps \<and> ''sslQuorum=true'' \<in> set ps)"
  using migration_flags_of_stage [of add_port_unification] migration_flags_of_stage [of tls_on]
  by (simp add: add_port_unification_def tls_on_def)

section \<open>Keys of the assembled list and the place of the flags\<close>

lemma keys_of_append: "keys_of (xs @ ys) = keys_of xs @ keys_of ys"
  by (simp add: keys_of_def)

lemma keys_of_base_lines:
  "keys_of (base_lines c d) =
     [''initLimit'', ''syncLimit'', ''tickTime'', ''syncEnabled'', ''maxClientCnxns'',
      ''minSessionTimeout'', ''maxSessionTimeout'', ''autopurge.snapRetainCount'',
      ''autopurge.purgeInterval'', ''reconfigEnabled'', ''standaloneEnabled'',
      ''4lw.commands.whitelist'', ''DigestAuthenticationProvider.digestAlg'',
      ''quorum.auth.enableSasl'', ''quorum.auth.learnerRequireSasl'',
      ''quorum.auth.serverRequireSasl'', ''authProvider.sasl'', ''audit.enable'',
      ''dataDir'', ''dataLogDir''] @ keys_of [d]"
  by (simp add: keys_of_def base_lines_def is_property_def property_key_def)

lemma keys_of_tls_lines:
  "keys_of (tls_lines c) =
     (if tls_enabled c then
        [''secureClientPort'', ''ssl.clientAuth'', ''ssl.quorum.clientAuth'',
         ''ssl.client.enable'', ''clientCnxnSocket'', ''serverCnxnFactory'',
         ''ssl.quorum.hostnameVerification'', ''ssl.hostnameVerification'',
         ''ssl.trustStore.type'', ''ssl.keyStore.type'', ''ssl.quorum.keyStore.location'',
         ''ssl.quorum.trustStore.location'', ''ssl.keyStore.location'',
         ''ssl.trustStore.location'', ''ssl.keyStore.location'',
         ''ssl.quorum.keyStore.password'', ''ssl.quorum.trustStore.password'',
         ''ssl.keyStore.password'', ''ssl.trustStore.password'']
      else [])"
  by (simp add: keys_of_def tls_lines_def is_property_def property_key_def)

lemma keys_of_transition_flags:
  "keys_of (transition_flags c) =
     (if tls_upgrading c then [''portUnification''] else []) @
     (if cluster_quorum c = Some ''ssl'' then [''sslQuorum''] else [])"
  by (simp add: keys_of_def transition_flags_def is_property_def property_key_def)

text \<open>
  C2. The claim asks that no key stands on two lines of the assembled list and that the
  transition flags are its final lines. With TLS enabled the first half fails on the code:
  \<open>zookeeper_properties\<close> appends the line \<open>ssl.keyStore.location=<keystore path>\<close> a
  second time, after the truststore location. At \<open>tls_on\<close> (TLS enabled, tuning 5, 2 and
  2000, no deployed file) that line, and so the key \<open>ssl.keyStore.location\<close>, occurs
  twice in the list.
\<close>

theorem keystore_location_on_two_lines:
  "tls_enabled tls_on \<and>
   0 < init_limit tls_on \<and> 0 < sync_limit tls_on \<and> 0 < tick_time tls_on \<and>
   (case zookeeper_properties tls_on of
      Inl e \<Rightarrow> False
    | Inr ps \<Rightarrow>
        count_list ps ''ssl.keyStore.location=/srv/config/keystore.p12'' = 2 \<and>
        count_list (keys_of ps) ''ssl.keyStore.location'' = 2)"
proof -
  let ?ps = "base_lines tls_on ''dynamicConfigFile=/srv/config/zookeeper-dynamic.properties''
               @ tls_lines tls_on @ transition_flags tls_on"
  have k: "keys_of [''dynamicConfigFile=/srv/config/zookeeper-dynamic.properties''] =
             [''dynamicConfigFile'']"
    by (simp add: keys_of_def is_property_def property_key_def)
  have lines: "count_list ?ps ''ssl.keyStore.location=/srv/config/keystore.p12'' = 2"
    by (simp add: base_lines_def tls_lines_def transition_flags_def tls_on_def
        default_config_path_def keystore_filepath_def truststore_filepath_def)
  have keys: "count_list (keys_of ?ps) ''ssl.keyStore.location'' = 2"
    by (simp add: keys_of_append keys_of_base_lines keys_of_tls_lines keys_of_transition_flags
        k tls_on_def)
  have "zookeeper_properties tls_on = Inr ?ps"
    by (rule zookeeper_properties_lines [OF tracker_tls_on])
  with lines keys show ?thesis
    by (simp add: tls_on_def)
qed

text \<open>
  The second half of the claim holds for every input: the list is a body that holds
  neither flag, followed by portUnification=true when upgrading and then sslQuorum=true
  when the quorum mode is ssl.
\<close>

lemma transition_flags_are_last:
  "\<exists>body. zookeeper_properties c = Inr (body @ transition_flags c) \<and>
     ''portUnification=true'' \<notin> set body \<and> ''sslQuorum=true'' \<notin> set body"
proof -
  obtain d where d: "current_dynamic_config_file c = Inr d"
    using tracker_total by blast
  let ?body = "base_lines c d @ tls_lines c"
  have "zookeeper_properties c = Inr (?body @ transition_flags c)"
    using zookeeper_properties_lines [OF d] by simp
  moreover have "''portUnification=true'' \<notin> set ?body"
    using base_lines_no_flag(1) [OF tracker_line_not_flag [OF d]] tls_lines_no_flag(1) by simp
  moreover have "''sslQuorum=true'' \<notin> set ?body"
    using base_lines_no_flag(2) [OF tracker_line_not_flag [OF d]] tls_lines_no_flag(2) by simp
  ultimately show ?thesis by blast
qed

section \<open>The continuity tracker\<close>

lemma splitlines_from_sublist:
  "l \<in> set (splitlines_from cur s) \<Longrightarrow> sublist l (cur @ s)"
proof (induction cur s rule: splitlines_from.induct)
  case (1 cur)
  then show ?case by (auto split: if_splits)
next
  case (2 cur c cs)
  show ?case
  proof (cases "boundary (c # cs) = 0")
    case True
    with "2.prems" have "l \<in> set (splitlines_from (cur @ [c]) cs)"
      by (simp del: boundary.simps)
    with "2.IH"(1) True have "sublist l ((cur @ [c]) @ cs)"
      by (simp del: boundary.simps)
    then show ?thesis by simp
  next
    case False
    with "2.prems" have "l = cur \<or> l \<in> set (splitlines_from [] (drop (boundary (c # cs)) (c # cs)))"
      by (simp del: boundary.simps)
    then show ?thesis
    proof
      assume "l = cur"
      then show ?thesis by (simp add: sublist_append_rightI)
    next
      assume "l \<in> set (splitlines_from [] (drop (boundary (c # cs)) (c # cs)))"
      with "2.IH"(2) False have "sublist l (drop (boundary (c # cs)) (c # cs))"
        by (simp del: boundary.simps)
      moreover have "sublist (drop (boundary (c # cs)) (c # cs)) (c # cs)"
        by (rule suffix_imp_sublist) (rule suffix_drop)
      ultimately have "sublist l (c # cs)"
        by (rule sublist_order.order_trans)
      moreover have "sublist (c # cs) (cur @ c # cs)"
        by (rule sublist_append_leftI)
      ultimately show ?thesis
        by (rule sublist_order.order_trans)
    qed
  qed
qed

lemma splitlines_sublist: "l \<in> set (splitlines s) \<Longrightarrow> sublist l s"
  using splitlines_from_sublist [of l "[]" s] by (simp add: splitlines_def)

lemma find_first:
  assumes "\<exists>x \<in> set xs. P x"
  shows "\<exists>before l after. xs = before @ l # after \<and> (\<forall>x \<in> set before. \<not> P x) \<and> P l \<and>
           find P xs = Some l"
  using assms
proof (induction xs)
  case Nil
  then show ?case by simp
next
  case (Cons a xs)
  show ?case
  proof (cases "P a")
    case True
    then have "a # xs = [] @ a # xs \<and> (\<forall>x \<in> set []. \<not> P x) \<and> P a \<and> find P (a # xs) = Some a"
      by simp
    then show ?thesis by blast
  next
    case False
    with Cons.prems have "\<exists>x \<in> set xs. P x" by simp
    from Cons.IH [OF this] obtain before l after where
      *: "xs = before @ l # after" "\<forall>x \<in> set before. \<not> P x" "P l" "find P xs = Some l"
      by blast
    with False have "a # xs = (a # before) @ l # after \<and> (\<forall>x \<in> set (a # before). \<not> P x) \<and> P l \<and>
        find P (a # xs) = Some l"
      by simp
    then show ?thesis by blast
  qed
qed

text \<open>
  C3. When the deployed static file can be read and one of its lines contains the text
  dynamicConfigFile, the tracker returns the first such line: every line before it lacks
  the text, and the returned line is a contiguous piece of the file's contents, with
  whatever follows the key in it (a revision suffix included).
\<close>

theorem tracker_returns_first_pointer_line:
  assumes "container c (properties_filepath c) = Some contents"
    and "\<exists>l \<in> set (splitlines contents). sublist ''dynamicConfigFile'' l"
  shows "\<exists>before l after.
           splitlines contents = before @ l # after \<and>
           (\<forall>x \<in> set before. \<not> sublist ''dynamicConfigFile'' x) \<and>
           sublist ''dynamicConfigFile'' l \<and>
           sublist l contents \<and>
           current_dynamic_config_file c = Inr l"
proof -
  from find_first [OF assms(2)] obtain before l after where
    *: "splitlines contents = before @ l # after"
       "\<forall>x \<in> set before. \<not> sublist ''dynamicConfigFile'' x"
       "sublist ''dynamicConfigFile'' l"
       "find (sublist ''dynamicConfigFile'') (splitlines contents) = Some l"
    by blast
  from *(1) have "l \<in> set (splitlines contents)" by simp
  then have "sublist l contents" by (rule splitlines_sublist)
  moreover from assms(1) *(4) have "current_dynamic_config_file c = Inr l"
    by (simp add: current_dynamic_config_file_def pull_def)
  ultimately show ?thesis using * by blast
qed

lemma splitlines_revised_pointer:
  "splitlines ''initLimit=5\<newline>dynamicConfigFile=/cfg/zookeeper-dynamic-v7.properties\<newline>dynamicConfigFile=/cfg/other''
     = [''initLimit=5'', ''dynamicConfigFile=/cfg/zookeeper-dynamic-v7.properties'',
        ''dynamicConfigFile=/cfg/other'']"
  by (simp add: splitlines_def)

text \<open>
  The theorem at \<open>revised_pointer\<close>, whose file holds a pointer with a revision suffix
  before a second pointer line.
\<close>

theorem tracker_returns_first_pointer_line_witness:
  "current_dynamic_config_file revised_pointer =
     Inr ''dynamicConfigFile=/cfg/zookeeper-dynamic-v7.properties''"
proof -
  let ?contents = "''initLimit=5\<newline>dynamicConfigFile=/cfg/zookeeper-dynamic-v7.properties\<newline>dynamicConfigFile=/cfg/other''"
  have deployed: "container revised_pointer (properties_filepath revised_pointer) = Some ?contents"
    by (simp add: revised_pointer_def properties_filepath_def default_config_path_def)
  have some: "\<exists>l \<in> set (splitlines ?contents). sublist ''dynamicConfigFile'' l"
    by (simp add: splitlines_revised_pointer sublist_code)
  from tracker_returns_first_pointer_line [OF deployed some] obtain before l after where
    *: "splitlines ?contents = before @ l # after"
       "\<forall>x \<in> set before. \<not> sublist ''dynamicConfigFile'' x"
       "sublist ''dynamicConfigFile'' l"
       "current_dynamic_config_file revised_pointer = Inr l"
    by blast
  have "find (sublist ''dynamicConfigFile'') (splitlines ?contents) = Some l"
    unfolding *(1) using *(2,3) by (induction before) auto
  then have "l = ''dynamicConfigFile=/cfg/zookeeper-dynamic-v7.properties''"
    by (simp add: splitlines_revised_pointer sublist_code)
  with *(4) show ?thesis by simp
qed

text \<open>
  C6. The tracker always returns a line. When the static file is missing or cannot be
  read, and when it is read but no line contains the text dynamicConfigFile, the line is
  the same default pointer, dynamicConfigFile=<data-dir>/config/zookeeper-dynamic.properties.
\<close>

theorem tracker_default_on_missing_or_keyless:
  "(\<exists>d. current_dynamic_config_file c = Inr d) \<and>
   (container c (properties_filepath c) = None \<longrightarrow>
      current_dynamic_config_file c =
        Inr (''dynamicConfigFile='' @ data_dir c @ ''/config/zookeeper-dynamic.properties'')) \<and>
   (\<forall>contents.
      container c (properties_filepath c) = Some contents \<and>
      (\<forall>l \<in> set (splitlines contents). \<not> sublist ''dynamicConfigFile'' l) \<longrightarrow>
      current_dynamic_config_file c =
        Inr (''dynamicConfigFile='' @ data_dir c @ ''/config/zookeeper-dynamic.properties''))"
proof (intro conjI allI impI)
  show "\<exists>d. current_dynamic_config_file c = Inr d"
    by (rule tracker_total)
next
  assume "container c (properties_filepath c) = None"
  then show "current_dynamic_config_file c =
      Inr (''dynamicConfigFile='' @ data_dir c @ ''/config/zookeeper-dynamic.properties'')"
    by (simp add: current_dynamic_config_file_def pull_def default_dynamic_config_file_def
        default_config_path_def)
next
  fix contents
  assume a: "container c (properties_filepath c) = Some contents \<and>
      (\<forall>l \<in> set (splitlines contents). \<not> sublist ''dynamicConfigFile'' l)"
  then have "find (sublist ''dynamicConfigFile'') (splitlines contents) = None"
    by (simp add: find_None_iff)
  with a show "current_dynamic_config_file c =
      Inr (''dynamicConfigFile='' @ data_dir c @ ''/config/zookeeper-dynamic.properties'')"
    by (simp add: current_dynamic_config_file_def pull_def default_dynamic_config_file_def
        default_config_path_def)
qed

text \<open>
  The theorem at \<open>nonpositive_tuning\<close> (no file) and \<open>keyless_file\<close> (a file without
  the key).
\<close>

theorem tracker_default_on_missing_or_keyless_witness:
  "current_dynamic_config_file nonpositive_tuning =
     Inr ''dynamicConfigFile=/var/lib/zookeeper/config/zookeeper-dynamic.properties'' \<and>
   current_dynamic_config_file keyless_file =
     Inr ''dynamicConfigFile=/srv/config/zookeeper-dynamic.properties''"
proof -
  have missing: "container nonpositive_tuning (properties_filepath nonpositive_tuning) = None"
    by (simp add: nonpositive_tuning_def)
  have deployed: "container keyless_file (properties_filepath keyless_file) =
      Some ''initLimit=5\<newline>syncLimit=2''"
    by (simp add: keyless_file_def properties_filepath_def default_config_path_def)
  have keyless: "\<forall>l \<in> set (splitlines ''initLimit=5\<newline>syncLimit=2'').
      \<not> sublist ''dynamicConfigFile'' l"
    by (simp add: splitlines_def sublist_code)
  from tracker_default_on_missing_or_keyless [of nonpositive_tuning] missing
  have "current_dynamic_config_file nonpositive_tuning =
      Inr (''dynamicConfigFile='' @ data_dir nonpositive_tuning @
           ''/config/zookeeper-dynamic.properties'')"
    by blast
  moreover from tracker_default_on_missing_or_keyless [of keyless_file] deployed keyless
  have "current_dynamic_config_file keyless_file =
      Inr (''dynamicConfigFile='' @ data_dir keyless_file @
           ''/config/zookeeper-dynamic.properties'')"
    by blast
  ultimately show ?thesis
    by (simp add: nonpositive_tuning_def keyless_file_def)
qed

section \<open>Tuning parameters\<close>

text \<open>
  The statement that a non-positive tuning parameter is rejected fails: at
  \<open>nonpositive_tuning\<close> (init-limit 0, sync-limit -5) the list is assembled.
\<close>

theorem nonpositive_tuning_is_assembled:
  "init_limit nonpositive_tuning \<le> 0 \<and> sync_limit nonpositive_tuning \<le> 0 \<and>
   zookeeper_properties nonpositive_tuning =
     Inr [''initLimit=0'', ''syncLimit=-5'', ''tickTime=2000'', '''',
          ''syncEnabled=true'', ''maxClientCnxns=60'', ''minSessionTimeout=4000'',
          ''maxSessionTimeout=40000'', ''autopurge.snapRetainCount=3'',
          ''autopurge.purgeInterval=0'', ''reconfigEnabled=true'',
          ''standaloneEnabled=false'', ''4lw.commands.whitelist=mntr,srvr'',
          ''DigestAuthenticationProvider.digestAlg=SHA3-256'',
          ''quorum.auth.enableSasl=true'', ''quorum.auth.learnerRequireSasl=true'',
          ''quorum.auth.serverRequireSasl=true'',
          ''authProvider.sasl=org.apache.zookeeper.server.auth.SASLAuthenticationProvider'',
          ''audit.enable=true'', ''dataDir=/var/lib/zookeeper/config/data'',
          ''dataLogDir=/var/lib/zookeeper/config/log'',
          ''dynamicConfigFile=/var/lib/zookeeper/config/zookeeper-dynamic.properties'']"
proof -
  have "current_dynamic_config_file nonpositive_tuning =
          Inr ''dynamicConfigFile=/var/lib/zookeeper/config/zookeeper-dynamic.properties''"
    by (simp add: current_dynamic_config_file_def pull_def nonpositive_tuning_def
        default_dynamic_config_file_def default_config_path_def properties_filepath_def)
  from zookeeper_properties_lines [OF this] show ?thesis
    by (simp add: base_lines_def tls_lines_def transition_flags_def nonpositive_tuning_def
        default_config_path_def str_int_examples)
qed

text \<open>
  C4, amended. The tuning parameters are not validated: for every input, a non-positive
  parameter included, the list is assembled and its first three lines are initLimit,
  syncLimit and tickTime with the values in decimal.
\<close>

theorem tuning_is_not_validated:
  "\<exists>rest. zookeeper_properties c =
     Inr ([''initLimit='' @ str_int (init_limit c),
           ''syncLimit='' @ str_int (sync_limit c),
           ''tickTime='' @ str_int (tick_time c)] @ rest)"
proof -
  obtain d where d: "current_dynamic_config_file c = Inr d"
    using tracker_total by blast
  show ?thesis
    unfolding zookeeper_properties_lines [OF d] by (simp add: base_lines_def)
qed

text \<open>
  The theorem at \<open>nonpositive_tuning\<close>.
\<close>

theorem tuning_is_not_validated_witness:
  "\<exists>rest. zookeeper_properties nonpositive_tuning =
     Inr ([''initLimit=0'', ''syncLimit=-5'', ''tickTime=2000''] @ rest)"
  using tuning_is_not_validated [of nonpositive_tuning]
  by (simp add: nonpositive_tuning_def str_int_examples)

section \<open>TLS password lines\<close>

text \<open>
  C10. When TLS is enabled the four password lines (quorum keystore, quorum truststore,
  keystore, truststore) stand together, followed by the transition flags only, and all
  four carry the one keystore password.
\<close>

theorem tls_password_lines_share_keystore_password:
  assumes "tls_enabled c"
  shows "\<exists>before after. zookeeper_properties c =
            Inr (before @
                 [''ssl.quorum.keyStore.password='' @ fmt_opt (tls_keystore_password c),
                  ''ssl.quorum.trustStore.password='' @ fmt_opt (tls_keystore_password c),
                  ''ssl.keyStore.password='' @ fmt_opt (tls_keystore_password c),
                  ''ssl.trustStore.password='' @ fmt_opt (tls_keystore_password c)] @ after)
          \<and> set after \<subseteq> {''portUnification=true'', ''sslQuorum=true''}"
proof -
  obtain d where d: "current_dynamic_config_file c = Inr d"
    using tracker_total by blast
  let ?pw = "[''ssl.quorum.keyStore.password='' @ fmt_opt (tls_keystore_password c),
              ''ssl.quorum.trustStore.password='' @ fmt_opt (tls_keystore_password c),
              ''ssl.keyStore.password='' @ fmt_opt (tls_keystore_password c),
              ''ssl.trustStore.password='' @ fmt_opt (tls_keystore_password c)]"
  have "tls_lines c = take 17 (tls_lines c) @ ?pw"
    using assms by (simp add: tls_lines_def)
  then have "zookeeper_properties c =
               Inr ((base_lines c d @ take 17 (tls_lines c)) @ ?pw @ transition_flags c)"
    using zookeeper_properties_lines [OF d] by simp
  moreover have "set (transition_flags c) \<subseteq> {''portUnification=true'', ''sslQuorum=true''}"
    by (auto simp: transition_flags_def)
  ultimately show ?thesis by blast
qed

text \<open>
  The theorem at \<open>tls_on\<close>, whose keystore password is \<open>secret\<close>.
\<close>

theorem tls_password_lines_share_keystore_password_witness:
  "\<exists>before after. zookeeper_properties tls_on =
      Inr (before @
           [''ssl.quorum.keyStore.password=secret'',
            ''ssl.quorum.trustStore.password=secret'',
            ''ssl.keyStore.password=secret'',
            ''ssl.trustStore.password=secret''] @ after)
    \<and> set after \<subseteq> {''portUnification=true'', ''sslQuorum=true''}"
proof -
  have "tls_enabled tls_on" by (simp add: tls_on_def)
  from tls_password_lines_share_keystore_password [OF this] show ?thesis
    by (simp add: tls_on_def)
qed

section \<open>The static/dynamic partitioner\<close>

text \<open>
  C7. The partitioner is idempotent.
\<close>

theorem partition_idempotent:
  "build_static_properties (build_static_properties L) = build_static_properties L"
  by (simp add: build_static_properties_def)

lemma build_static_sample:
  "build_static_properties sample_properties = [''tickTime=2000'', ''dataDir=/srv/config/data'']"
  by (simp add: build_static_properties_def sample_properties_def sublist_code)

text \<open>
  The theorem at \<open>sample_properties\<close>.
\<close>

theorem partition_idempotent_witness:
  "build_static_properties (build_static_properties sample_properties) =
     [''tickTime=2000'', ''dataDir=/srv/config/data'']"
  using partition_idempotent [of sample_properties] by (simp add: build_static_sample)

text \<open>
  The statement that only the properties keyed clientPort or secureClientPort are removed
  fails: the line \<open>clientPortAddress=0.0.0.0\<close> has another key and is removed.
\<close>

theorem partition_removes_other_key:
  "property_key ''clientPortAddress=0.0.0.0'' = ''clientPortAddress'' \<and>
   build_static_properties [''clientPortAddress=0.0.0.0'', ''tickTime=2000''] = [''tickTime=2000'']"
  by (simp add: property_key_def build_static_properties_def sublist_code)

lemma key_is_mentioned: "property_key l = k \<Longrightarrow> sublist k l"
  unfolding property_key_def
  using prefix_imp_sublist takeWhile_is_prefix by blast

text \<open>
  C8, amended. The partitioner removes exactly the lines that contain the text clientPort
  or the text secureClientPort anywhere, and keeps every other line as it is, as often as
  it occurs and in the same order. Every line keyed clientPort or secureClientPort is
  among the removed ones.
\<close>

theorem partition_removes_mentions:
  "subseq (build_static_properties L) L \<and>
   (\<forall>l. count_list (build_static_properties L) l =
      (if sublist ''clientPort'' l \<or> sublist ''secureClientPort'' l then 0
       else count_list L l)) \<and>
   (\<forall>l \<in> set L. property_key l = ''clientPort'' \<or> property_key l = ''secureClientPort'' \<longrightarrow>
      l \<notin> set (build_static_properties L))"
proof (intro conjI allI ballI impI)
  show "subseq (build_static_properties L) L"
    by (simp add: build_static_properties_def)
next
  fix l
  show "count_list (build_static_properties L) l =
      (if sublist ''clientPort'' l \<or> sublist ''secureClientPort'' l then 0 else count_list L l)"
    by (induction L) (auto simp: build_static_properties_def)
next
  fix l
  assume "l \<in> set L"
    and "property_key l = ''clientPort'' \<or> property_key l = ''secureClientPort''"
  then have "sublist ''clientPort'' l \<or> sublist ''secureClientPort'' l"
    using key_is_mentioned by blast
  then show "l \<notin> set (build_static_properties L)"
    by (auto simp: build_static_properties_def)
qed

text \<open>
  The theorem at \<open>sample_properties\<close>.
\<close>

theorem partition_removes_mentions_witness:
  "subseq (build_static_properties sample_properties) sample_properties \<and>
   count_list (build_static_properties sample_properties) ''clientPortAddress=0.0.0.0'' = 0 \<and>
   count_list (build_static_properties sample_properties) ''tickTime=2000'' = 1 \<and>
   ''clientPort=2181'' \<notin> set (build_static_properties sample_properties)"
proof -
  have mem: "''clientPort=2181'' \<in> set sample_properties"
    by (simp add: sample_properties_def)
  have key: "property_key ''clientPort=2181'' = ''clientPort''"
    by (simp add: property_key_def)
  have m1: "sublist ''clientPort'' ''clientPortAddress=0.0.0.0''"
    by (simp add: sublist_code)
  have m2: "\<not> (sublist ''clientPort'' ''tickTime=2000'' \<or> sublist ''secureClientPort'' ''tickTime=2000'')"
    by (simp add: sublist_code)
  have c2: "count_list sample_properties ''tickTime=2000'' = 1"
    by (simp add: sample_properties_def)
  note t = partition_removes_mentions [of sample_properties]
  from t have "subseq (build_static_properties sample_properties) sample_properties"
    by blast
  moreover from t m1
  have "count_list (build_static_properties sample_properties) ''clientPortAddress=0.0.0.0'' = 0"
    by simp
  moreover from t m2 c2
  have "count_list (build_static_properties sample_properties) ''tickTime=2000'' = 1"
    by simp
  moreover from t mem key
  have "''clientPort=2181'' \<notin> set (build_static_properties sample_properties)"
    by blast
  ultimately show ?thesis by blast
qed

section \<open>The auth configuration\<close>

lemma jaas_users_loop_eq:
  "jaas_users_loop d rs acc = acc @ map (user_line d) (filter (resolved d) rs)"
proof (induction rs arbitrary: acc)
  case Nil
  then show ?case by simp
next
  case (Cons r rs)
  show ?case
  proof (cases "resolved d r")
    case True
    then have "d (''relation-'' @ str_int r) \<noteq> None" "d (''relation-'' @ str_int r) \<noteq> Some []"
      by (auto simp: resolved_def split: option.splits)
    with True Cons.IH show ?thesis
      by (simp add: Let_def user_line_def)
  next
    case False
    then have "d (''relation-'' @ str_int r) = None \<or> d (''relation-'' @ str_int r) = Some []"
      by (auto simp: resolved_def split: option.splits)
    with False Cons.IH show ?thesis
      by (auto simp: Let_def)
  qed
qed

lemma jaas_users_eq:
  "jaas_users c = map (user_line (app_data c)) (filter (resolved (app_data c)) (client_relations c))"
  by (simp add: jaas_users_def jaas_users_loop_eq)

lemma jaas_config_text:
  \<open>jaas_config c =
     Inr (''\<newline>'' @
        ''            QuorumServer {\<newline>'' @
        ''                org.apache.zookeeper.server.auth.DigestLoginModule required\<newline>'' @
        ''                user_sync="'' @ fmt_opt (app_data c ''sync-password'') @ ''";\<newline>'' @
        ''            };\<newline>'' @
        ''            QuorumLearner {\<newline>'' @
        ''                org.apache.zookeeper.server.auth.DigestLoginModule required\<newline>'' @
        ''                username="sync"\<newline>'' @
        ''                password="'' @ fmt_opt (app_data c ''sync-password'') @ ''";\<newline>'' @
        ''            };\<newline>'' @
        ''            Server {\<newline>'' @
        ''                org.apache.zookeeper.server.auth.DigestLoginModule required\<newline>'' @
        ''                '' @ join ''\<newline>'' (jaas_users c) @ ''\<newline>'' @
        ''                user_super="'' @ fmt_opt (app_data c ''super-password'') @ ''";\<newline>'' @
        ''            };\<newline>'' @
        ''        '')\<close>
  by (simp add: jaas_config_def Let_def)

text \<open>
  C9. The user lines are those of the resolved client relations, in order; a relation
  without a password is skipped, and the generator returns a text for every state. When
  no relation is resolved (none registered, or none with a password) the text holds the
  three blocks QuorumServer, QuorumLearner and Server, the client section of the Server
  block being empty.
\<close>

theorem jaas_config_skips_unresolved_clients:
  \<open>jaas_users c =
     map (user_line (app_data c)) (filter (resolved (app_data c)) (client_relations c)) \<and>
   (\<exists>t. jaas_config c = Inr t) \<and>
   ((\<forall>r \<in> set (client_relations c). \<not> resolved (app_data c) r) \<longrightarrow>
     jaas_config c =
       Inr (''\<newline>'' @
        ''            QuorumServer {\<newline>'' @
        ''                org.apache.zookeeper.server.auth.DigestLoginModule required\<newline>'' @
        ''                user_sync="'' @ fmt_opt (app_data c ''sync-password'') @ ''";\<newline>'' @
        ''            };\<newline>'' @
        ''            QuorumLearner {\<newline>'' @
        ''                org.apache.zookeeper.server.auth.DigestLoginModule required\<newline>'' @
        ''                username="sync"\<newline>'' @
        ''                password="'' @ fmt_opt (app_data c ''sync-password'') @ ''";\<newline>'' @
        ''            };\<newline>'' @
        ''            Server {\<newline>'' @
        ''                org.apache.zookeeper.server.auth.DigestLoginModule required\<newline>'' @
        ''                \<newline>'' @
        ''                user_super="'' @ fmt_opt (app_data c ''super-password'') @ ''";\<newline>'' @
        ''            };\<newline>'' @
        ''        ''))\<close>
proof (intro conjI impI)
  show "jaas_users c =
      map (user_line (app_data c)) (filter (resolved (app_data c)) (client_relations c))"
    by (rule jaas_users_eq)
next
  show "\<exists>t. jaas_config c = Inr t"
    by (simp add: jaas_config_text)
next
  assume "\<forall>r \<in> set (client_relations c). \<not> resolved (app_data c) r"
  then have "filter (resolved (app_data c)) (client_relations c) = []"
    by (simp add: filter_empty_conv)
  then have u: "jaas_users c = []"
    by (simp add: jaas_users_eq)
  show \<open>jaas_config c =
       Inr (''\<newline>'' @
        ''            QuorumServer {\<newline>'' @
        ''                org.apache.zookeeper.server.auth.DigestLoginModule required\<newline>'' @
        ''                user_sync="'' @ fmt_opt (app_data c ''sync-password'') @ ''";\<newline>'' @
        ''            };\<newline>'' @
        ''            QuorumLearner {\<newline>'' @
        ''                org.apache.zookeeper.server.auth.DigestLoginModule required\<newline>'' @
        ''                username="sync"\<newline>'' @
        ''                password="'' @ fmt_opt (app_data c ''sync-password'') @ ''";\<newline>'' @
        ''            };\<newline>'' @
        ''            Server {\<newline>'' @
        ''                org.apache.zookeeper.server.auth.DigestLoginModule required\<newline>'' @
        ''                \<newline>'' @
        ''                user_super="'' @ fmt_opt (app_data c ''super-password'') @ ''";\<newline>'' @
        ''            };\<newline>'' @
        ''        '')\<close>
    unfolding jaas_config_text u by simp
qed

text \<open>
  The theorem at \<open>pending_client\<close> (relation 5 without a password, relation 7 with
  one) and at \<open>only_pending_client\<close> (relation 5 alone, without a password).
\<close>

theorem jaas_config_skips_unresolved_clients_witness:
  \<open>jaas_users pending_client = [''user_relation-7="pw7"''] \<and>
   jaas_config only_pending_client =
       Inr (''\<newline>'' @
        ''            QuorumServer {\<newline>'' @
        ''                org.apache.zookeeper.server.auth.DigestLoginModule required\<newline>'' @
        ''                user_sync="s1";\<newline>'' @
        ''            };\<newline>'' @
        ''            QuorumLearner {\<newline>'' @
        ''                org.apache.zookeeper.server.auth.DigestLoginModule required\<newline>'' @
        ''                username="sync"\<newline>'' @
        ''                password="s1";\<newline>'' @
        ''            };\<newline>'' @
        ''            Server {\<newline>'' @
        ''                org.apache.zookeeper.server.auth.DigestLoginModule required\<newline>'' @
        ''                \<newline>'' @
        ''                user_super="s2";\<newline>'' @
        ''            };\<newline>'' @
        ''        '')\<close>
proof -
  have r5: "\<not> resolved (app_data pending_client) 5"
    and r7: "resolved (app_data pending_client) 7"
    by (simp_all add: resolved_def pending_client_def str_int_examples)
  have l7: \<open>user_line (app_data pending_client) 7 = ''user_relation-7="pw7"''\<close>
    by (simp add: user_line_def pending_client_def str_int_examples)
  have rels: "client_relations pending_client = [5, 7]"
    by (simp add: pending_client_def)
  have pending: "\<forall>r \<in> set (client_relations only_pending_client).
      \<not> resolved (app_data only_pending_client) r"
    by (simp add: resolved_def only_pending_client_def str_int_examples)
  have pw: "app_data only_pending_client ''sync-password'' = Some ''s1''"
    "app_data only_pending_client ''super-password'' = Some ''s2''"
    by (simp_all add: only_pending_client_def)
  from jaas_config_skips_unresolved_clients [of pending_client] r5 r7 l7 rels
  have \<open>jaas_users pending_client = [''user_relation-7="pw7"'']\<close>
    by simp
  moreover from jaas_config_skips_unresolved_clients [of only_pending_client] pending pw
  have \<open>jaas_config only_pending_client =
       Inr (''\<newline>'' @
        ''            QuorumServer {\<newline>'' @
        ''                org.apache.zookeeper.server.auth.DigestLoginModule required\<newline>'' @
        ''                user_sync="s1";\<newline>'' @
        ''            };\<newline>'' @
        ''            QuorumLearner {\<newline>'' @
        ''                org.apache.zookeeper.server.auth.DigestLoginModule required\<newline>'' @
        ''                username="sync"\<newline>'' @
        ''                password="s1";\<newline>'' @
        ''            };\<newline>'' @
        ''            Server {\<newline>'' @
        ''                org.apache.zookeeper.server.auth.DigestLoginModule required\<newline>'' @
        ''                \<newline>'' @
        ''                user_super="s2";\<newline>'' @
        ''            };\<newline>'' @
        ''        '')\<close>
    by simp
  ultimately show ?thesis by (rule conjI)
qed




end
